theory Spec2Isabelle
  imports Main "HOL-Library.AList"
begin

section \<open>Data model of \<^verbatim>\<open>src/data_ingestor.py\<close>\<close>

text \<open>
  Python exceptions are values. The source raises \<^verbatim>\<open>ValueError\<close> and
  \<^verbatim>\<open>FileNotFoundError\<close> itself; every other class an external library
  (pandas, zipfile, the operating system) may raise is \<open>OtherError\<close>. All three are
  subclasses of \<^verbatim>\<open>Exception\<close>, so \<^verbatim>\<open>except Exception\<close> catches each of them.
\<close>

datatype exn = ValueError string | FileNotFoundError string | OtherError string

text \<open>\<^verbatim>\<open>str(e)\<close>, as the f-strings of the source format an exception.\<close>

fun str :: "exn \<Rightarrow> string" where
  "str (ValueError m) = m"
| "str (FileNotFoundError m) = m"
| "str (OtherError m) = m"

text \<open>
  A pandas \<^verbatim>\<open>DataFrame\<close>, as far as the source looks at it:
  \<^verbatim>\<open>df.columns.tolist()\<close> and \<^verbatim>\<open>len(df)\<close>.
\<close>

record dataframe =
  df_columns :: "string list"
  df_rows :: "string list list"

definition len :: "dataframe \<Rightarrow> nat" where
  "len df = length (df_rows df)"

text \<open>
  The \<^verbatim>\<open>import_instructions\<close> dictionary: the key \<^verbatim>\<open>'function'\<close> (field
  \<open>func\<close>) and the key \<^verbatim>\<open>'arguments'\<close>, a dictionary kept as an association
  list in insertion order.
\<close>

record instructions =
  func :: string
  arguments :: "(string \<times> string) list"

record metadata =
  file_name :: string
  file_type :: string
  columns :: "string list"
  row_count :: nat
  import_instructions :: instructions

section \<open>String and path helpers of the Python library\<close>

definition startswith :: "string \<Rightarrow> string \<Rightarrow> bool" where
  "startswith s p = (take (length p) s = p)"

definition endswith :: "string \<Rightarrow> string \<Rightarrow> bool" where
  "endswith s p = (take (length p) (rev s) = rev p)"

text \<open>\<^verbatim>\<open>os.path.basename\<close> (POSIX): what follows the last slash.\<close>

definition basename :: "string \<Rightarrow> string" where
  "basename p = rev (takeWhile (\<lambda>c. c \<noteq> CHR ''/'') (rev p))"

text \<open>
  \<^verbatim>\<open>os.path.splitext(p)[1]\<close> (POSIX): the text from the last dot of the last path
  component on, provided some character other than a dot precedes that dot in the
  component; otherwise the empty string.
\<close>

definition splitext_ext :: "string \<Rightarrow> string" where
  "splitext_ext p =
     (let r = rev (basename p);
          e = takeWhile (\<lambda>c. c \<noteq> CHR ''.'') r;
          rest = dropWhile (\<lambda>c. c \<noteq> CHR ''.'') r
      in if rest = [] then []
         else if filter (\<lambda>c. c \<noteq> CHR ''.'') (tl rest) = [] then []
         else CHR ''.'' # rev e)"

text \<open>\<^verbatim>\<open>os.path.join(a, b)\<close> (POSIX) for two components.\<close>

definition path_join :: "string \<Rightarrow> string \<Rightarrow> string" where
  "path_join a b =
     (if startswith b ''/'' then b
      else if a = [] \<or> endswith a ''/'' then a @ b
      else a @ ''/'' @ b)"

section \<open>The environment: file system, zipfile and pandas\<close>

text \<open>
  Everything the source calls outside itself is a parameter: the state \<open>'s\<close> of the disk
  and the operations on it. An operation that writes returns the new state together with
  the exception it raised, if any; a pandas reader returns the frame or the exception.
  \<open>project_root\<close> is what \<^verbatim>\<open>PathManager.get_project_root()\<close> computes from
  \<^verbatim>\<open>__file__\<close>. \<open>display\<close> is the name \<^verbatim>\<open>display\<close> the loader calls without
  importing it: an IPython session provides it, elsewhere the call raises
  \<^verbatim>\<open>NameError\<close>. Its first argument tells whether the styled frame
  (\<^verbatim>\<open>df.head().style\<close>) or the plain one (\<^verbatim>\<open>df.head()\<close>) is shown.
\<close>

record 's env =
  project_root :: string
  path_exists :: "'s \<Rightarrow> string \<Rightarrow> bool"
  makedirs :: "'s \<Rightarrow> string \<Rightarrow> exn option \<times> 's"
  extractall :: "'s \<Rightarrow> string \<Rightarrow> string \<Rightarrow> exn option \<times> 's"
  namelist :: "'s \<Rightarrow> string \<Rightarrow> string list"
  listdir :: "'s \<Rightarrow> string \<Rightarrow> string list"
  read_csv :: "'s \<Rightarrow> string \<Rightarrow> string option \<Rightarrow> exn + dataframe"
  read_excel :: "'s \<Rightarrow> string \<Rightarrow> exn + dataframe"
  read_parquet :: "'s \<Rightarrow> string \<Rightarrow> exn + dataframe"
  read_json :: "'s \<Rightarrow> string \<Rightarrow> exn + dataframe"
  json_dump :: "'s \<Rightarrow> string \<Rightarrow> metadata list \<Rightarrow> exn option \<times> 's"
  display :: "bool \<Rightarrow> dataframe \<Rightarrow> exn option"

text \<open>
  The state a run threads through: the disk, the warnings issued by
  \<^verbatim>\<open>warnings.warn\<close> and the lines printed, both oldest first.
\<close>

record 's run =
  disk :: 's
  warned :: "string list"
  printed :: "string list"

definition warn :: "string \<Rightarrow> 's run \<Rightarrow> 's run" where
  "warn msg r = r\<lparr>warned := warned r @ [msg]\<rparr>"

section \<open>PathManager\<close>

definition get_extracted_data_folder :: "'s env \<Rightarrow> string" where
  "get_extracted_data_folder E = path_join (project_root E) ''extracted_data''"

definition get_metadata_folder :: "'s env \<Rightarrow> string" where
  "get_metadata_folder E = path_join (project_root E) ''metadata''"

section \<open>DataIngestor.read\_file\<close>

definition read_file :: "'s env \<Rightarrow> 's \<Rightarrow> string \<Rightarrow> string \<Rightarrow> exn + dataframe \<times> instructions" where
  "read_file E s file_path file_extension =
     (if file_extension = ''.csv'' then
        (case read_csv E s file_path None of
           Inl e \<Rightarrow> Inl e
         | Inr df \<Rightarrow> Inr (df, \<lparr>func = ''pd.read_csv'',
                               arguments = [(''filepath_or_buffer'', file_path)]\<rparr>))
      else if file_extension = ''.xlsx'' then
        (case read_excel E s file_path of
           Inl e \<Rightarrow> Inl e
         | Inr df \<Rightarrow> Inr (df, \<lparr>func = ''pd.read_excel'',
                               arguments = [(''io'', file_path)]\<rparr>))
      else if file_extension = ''.parquet'' then
        (case read_parquet E s file_path of
           Inl e \<Rightarrow> Inl e
         | Inr df \<Rightarrow> Inr (df, \<lparr>func = ''pd.read_parquet'',
                               arguments = [(''path'', file_path)]\<rparr>))
      else if file_extension = ''.json'' then
        (case read_json E s file_path of
           Inl e \<Rightarrow> Inl e
         | Inr df \<Rightarrow> Inr (df, \<lparr>func = ''pd.read_json'',
                               arguments = [(''path_or_buf'', file_path)]\<rparr>))
      else if file_extension = ''.txt'' then
        (case read_csv E s file_path (Some [CHR 0x09]) of
           Inl e \<Rightarrow> Inl e
         | Inr df \<Rightarrow> Inr (df, \<lparr>func = ''pd.read_csv'',
                               arguments = [(''filepath_or_buffer'', file_path),
                                            (''delimiter'', [CHR 0x09])]\<rparr>))
      else Inl (ValueError (''Unsupported file type: '' @ file_extension)))"

section \<open>DataFactory.get\_ingestor\<close>

datatype ingestor =
  ZipDataIngestor | CsvDataIngestor | ExcelDataIngestor
  | ParquetDataIngestor | JsonDataIngestor | TxtDataIngestor

definition ingestors :: "(string \<times> ingestor) list" where
  "ingestors =
     [(''.zip'', ZipDataIngestor),
      (''.csv'', CsvDataIngestor),
      (''.xlsx'', ExcelDataIngestor),
      (''.parquet'', ParquetDataIngestor),
      (''.json'', JsonDataIngestor),
      (''.txt'', TxtDataIngestor)]"

definition get_ingestor :: "string \<Rightarrow> exn + ingestor" where
  "get_ingestor file_extension =
     (case map_of ingestors file_extension of
        None \<Rightarrow> Inl (ValueError (''Unsupported file type: '' @ file_extension))
      | Some ingestor_class \<Rightarrow> Inr ingestor_class)"

section \<open>ZipDataIngestor\<close>

definition supported_formats :: "string list" where
  "supported_formats = [''.csv'', ''.xlsx'', ''.parquet'', ''.json'', ''.txt'']"

text \<open>
  The \<^verbatim>\<open>for file_name in filtered_extracted_files\<close> loop. The accumulator is the
  \<^verbatim>\<open>metadata\<close> list and the warnings issued so far. No branch of the body leaves
  the loop: an unsupported extension warns and continues, an exception of
  \<^verbatim>\<open>read_file\<close> is caught and warned about.
\<close>

fun ZipDataIngestor_loop ::
  "'s env \<Rightarrow> 's \<Rightarrow> string \<Rightarrow> string list \<Rightarrow> metadata list \<times> string list
     \<Rightarrow> metadata list \<times> string list" where
  "ZipDataIngestor_loop E s folder [] acc = acc"
| "ZipDataIngestor_loop E s folder (name # rest) (md, ws) =
     (let extracted_file_path = path_join folder name;
          file_extension = splitext_ext name
      in if file_extension \<notin> set supported_formats then
           ZipDataIngestor_loop E s folder rest
             (md, ws @ [''Unsupported file type: '' @ name @ ''. Skipping.''])
         else
           (case read_file E s extracted_file_path file_extension of
              Inr (df, instr) \<Rightarrow>
                ZipDataIngestor_loop E s folder rest
                  (md @ [\<lparr>file_name = name,
                          file_type = file_extension,
                          columns = df_columns df,
                          row_count = len df,
                          import_instructions = instr\<rparr>], ws)
            | Inl e \<Rightarrow>
                ZipDataIngestor_loop E s folder rest
                  (md, ws @ [''Failed to process '' @ name @ '': '' @ str e])))"

definition filtered_extracted_files :: "string list \<Rightarrow> string list" where
  "filtered_extracted_files extracted_files =
     [i \<leftarrow> extracted_files. \<not> startswith i ''.'' \<and> \<not> startswith i ''_'']"

definition ZipDataIngestor_ingest ::
  "'s env \<Rightarrow> string \<Rightarrow> 's run \<Rightarrow> (exn + metadata list) \<times> 's run" where
  "ZipDataIngestor_ingest E file_path r =
     (if \<not> endswith file_path ''.zip'' then
        (Inl (ValueError ''Provided file is not a .zip archive.''), r)
      else if \<not> path_exists E (disk r) file_path then
        (Inl (FileNotFoundError (''File '' @ file_path @ '' does not exist.'')), r)
      else
        let extracted_data_folder = get_extracted_data_folder E in
        (case makedirs E (disk r) extracted_data_folder of
           (Some e, s1) \<Rightarrow> (Inl e, r\<lparr>disk := s1\<rparr>)
         | (None, s1) \<Rightarrow>
             (case extractall E s1 file_path extracted_data_folder of
                (Some e, s2) \<Rightarrow> (Inl e, r\<lparr>disk := s2\<rparr>)
              | (None, s2) \<Rightarrow>
                  let extracted_files = listdir E s2 extracted_data_folder;
                      filtered = filtered_extracted_files extracted_files
                  in if filtered = [] then
                       (Inl (FileNotFoundError ''No files found within the .zip file.''),
                        r\<lparr>disk := s2\<rparr>)
                     else
                       (case ZipDataIngestor_loop E s2 extracted_data_folder filtered ([], []) of
                          (md, ws) \<Rightarrow>
                            (Inr md, r\<lparr>disk := s2, warned := warned r @ ws\<rparr>)))))"

section \<open>The ingestors of a single file\<close>

text \<open>
  Each reads the disk and writes nothing, so the disk is an argument and the result is
  the metadata dictionary or the exception raised.
\<close>

definition CsvDataIngestor_ingest :: "'s env \<Rightarrow> 's \<Rightarrow> string \<Rightarrow> exn + metadata" where
  "CsvDataIngestor_ingest E s file_path =
     (if \<not> endswith file_path ''.csv'' then
        Inl (ValueError ''The provided file is not a CSV file.'')
      else if \<not> path_exists E s file_path then
        Inl (FileNotFoundError (''The file '' @ file_path @ '' does not exist.''))
      else
        (case read_file E s file_path ''.csv'' of
           Inr (df, instr) \<Rightarrow>
             Inr \<lparr>file_name = basename file_path,
                  file_type = ''.csv'',
                  columns = df_columns df,
                  row_count = len df,
                  import_instructions = instr\<rparr>
         | Inl e \<Rightarrow> Inl (ValueError (''Failed to ingest CSV file: '' @ str e))))"

definition ExcelDataIngestor_ingest :: "'s env \<Rightarrow> 's \<Rightarrow> string \<Rightarrow> exn + metadata" where
  "ExcelDataIngestor_ingest E s file_path =
     (if \<not> (endswith file_path ''.xlsx'' \<or> endswith file_path ''.xls'') then
        Inl (ValueError ''The provided file is not an Excel file.'')
      else
        (case read_file E s file_path ''.xlsx'' of
           Inr (df, instr) \<Rightarrow>
             Inr \<lparr>file_name = basename file_path,
                  file_type = ''.xlsx'',
                  columns = df_columns df,
                  row_count = len df,
                  import_instructions = instr\<rparr>
         | Inl e \<Rightarrow> Inl (ValueError (''Failed to ingest Excel file: '' @ str e))))"

definition ParquetDataIngestor_ingest :: "'s env \<Rightarrow> 's \<Rightarrow> string \<Rightarrow> exn + metadata" where
  "ParquetDataIngestor_ingest E s file_path =
     (if \<not> endswith file_path ''.parquet'' then
        Inl (ValueError ''The provided file is not a Parquet file.'')
      else
        (case read_file E s file_path ''.parquet'' of
           Inr (df, instr) \<Rightarrow>
             Inr \<lparr>file_name = basename file_path,
                  file_type = ''.parquet'',
                  columns = df_columns df,
                  row_count = len df,
                  import_instructions = instr\<rparr>
         | Inl e \<Rightarrow> Inl (ValueError (''Failed to ingest Parquet file: '' @ str e))))"

definition JsonDataIngestor_ingest :: "'s env \<Rightarrow> 's \<Rightarrow> string \<Rightarrow> exn + metadata" where
  "JsonDataIngestor_ingest E s file_path =
     (if \<not> endswith file_path ''.json'' then
        Inl (ValueError ''The provided file is not a JSON file.'')
      else
        (case read_file E s file_path ''.json'' of
           Inr (df, instr) \<Rightarrow>
             Inr \<lparr>file_name = basename file_path,
                  file_type = ''.parquet'',
                  columns = df_columns df,
                  row_count = len df,
                  import_instructions = instr\<rparr>
         | Inl e \<Rightarrow> Inl (ValueError (''Failed to ingest Parquet file: '' @ str e))))"

definition TxtDataIngestor_ingest :: "'s env \<Rightarrow> 's \<Rightarrow> string \<Rightarrow> exn + metadata" where
  "TxtDataIngestor_ingest E s file_path =
     (if \<not> endswith file_path ''.txt'' then
        Inl (ValueError ''The provided file is not a TXT file.'')
      else
        (case read_file E s file_path ''.json'' of
           Inr (df, instr) \<Rightarrow>
             Inr \<lparr>file_name = basename file_path,
                  file_type = ''.json'',
                  columns = df_columns df,
                  row_count = len df,
                  import_instructions = instr\<rparr>
         | Inl e \<Rightarrow> Inl (ValueError (''Failed to ingest TXT file: '' @ str e))))"

text \<open>
  \<^verbatim>\<open>ingestor.ingest(file_path)\<close>, dispatched on the class of the ingestor. The ZIP
  ingestor returns a list of dictionaries, every other one a single dictionary.
\<close>

datatype ingested = One metadata | Many "metadata list"

fun entries :: "ingested \<Rightarrow> metadata list" where
  "entries (One m) = [m]"
| "entries (Many ms) = ms"

definition lift_one :: "exn + metadata \<Rightarrow> 's run \<Rightarrow> (exn + ingested) \<times> 's run" where
  "lift_one x r = (case x of Inl e \<Rightarrow> (Inl e, r) | Inr m \<Rightarrow> (Inr (One m), r))"

fun ingest :: "'s env \<Rightarrow> ingestor \<Rightarrow> string \<Rightarrow> 's run \<Rightarrow> (exn + ingested) \<times> 's run" where
  "ingest E ZipDataIngestor file_path r =
     (case ZipDataIngestor_ingest E file_path r of
        (Inl e, r') \<Rightarrow> (Inl e, r')
      | (Inr ms, r') \<Rightarrow> (Inr (Many ms), r'))"
| "ingest E CsvDataIngestor file_path r = lift_one (CsvDataIngestor_ingest E (disk r) file_path) r"
| "ingest E ExcelDataIngestor file_path r = lift_one (ExcelDataIngestor_ingest E (disk r) file_path) r"
| "ingest E ParquetDataIngestor file_path r = lift_one (ParquetDataIngestor_ingest E (disk r) file_path) r"
| "ingest E JsonDataIngestor file_path r = lift_one (JsonDataIngestor_ingest E (disk r) file_path) r"
| "ingest E TxtDataIngestor file_path r = lift_one (TxtDataIngestor_ingest E (disk r) file_path) r"

section \<open>DataIngestor.save\_metadata\<close>

text \<open>
  \<^verbatim>\<open>os.makedirs\<close> stands before the \<^verbatim>\<open>try\<close>, so its exception leaves the
  function; \<open>json_dump\<close> is the body of the \<^verbatim>\<open>try\<close> (opening the file for
  writing and \<^verbatim>\<open>json.dump\<close>), whose exception becomes a warning.
\<close>

definition save_metadata :: "'s env \<Rightarrow> metadata list \<Rightarrow> 's run \<Rightarrow> (exn + unit) \<times> 's run" where
  "save_metadata E md r =
     (let metadata_dir = get_metadata_folder E in
      case makedirs E (disk r) metadata_dir of
        (Some e, s1) \<Rightarrow> (Inl e, r\<lparr>disk := s1\<rparr>)
      | (None, s1) \<Rightarrow>
          let metadata_path = path_join metadata_dir ''metadata.json'' in
          (case json_dump E s1 metadata_path md of
             (None, s2) \<Rightarrow>
               (Inr (), r\<lparr>disk := s2,
                          printed := printed r @ [''Metadata saved at '' @ metadata_path]\<rparr>)
           | (Some e, s2) \<Rightarrow>
               (Inr (), warn (''Failed to save metadata: '' @ str e) (r\<lparr>disk := s2\<rparr>))))"

section \<open>DataLoader: executing the import instructions\<close>

text \<open>
  \<^verbatim>\<open>eval(import_function)(**import_args)\<close> of \<^verbatim>\<open>src/data_loader.py\<close>. The
  four function names the ingestors write evaluate to the pandas readers, and the
  keyword arguments are bound by name. Any other expression or keyword set is outside
  what the ingestors produce and is given as an exception.
\<close>

definition call_import :: "'s env \<Rightarrow> 's \<Rightarrow> string \<Rightarrow> (string \<times> string) list \<Rightarrow> exn + dataframe" where
  "call_import E s import_function import_args =
     (if import_function = ''pd.read_csv'' then
        (case import_args of
           [(k, p)] \<Rightarrow>
             if k = ''filepath_or_buffer'' then read_csv E s p None
             else Inl (OtherError ''TypeError'')
         | [(k, p), (k', d)] \<Rightarrow>
             if k = ''filepath_or_buffer'' \<and> k' = ''delimiter'' then read_csv E s p (Some d)
             else Inl (OtherError ''TypeError'')
         | _ \<Rightarrow> Inl (OtherError ''TypeError''))
      else if import_function = ''pd.read_excel'' then
        (case import_args of
           [(k, p)] \<Rightarrow>
             if k = ''io'' then read_excel E s p else Inl (OtherError ''TypeError'')
         | _ \<Rightarrow> Inl (OtherError ''TypeError''))
      else if import_function = ''pd.read_parquet'' then
        (case import_args of
           [(k, p)] \<Rightarrow>
             if k = ''path'' then read_parquet E s p else Inl (OtherError ''TypeError'')
         | _ \<Rightarrow> Inl (OtherError ''TypeError''))
      else if import_function = ''pd.read_json'' then
        (case import_args of
           [(k, p)] \<Rightarrow>
             if k = ''path_or_buf'' then read_json E s p else Inl (OtherError ''TypeError'')
         | _ \<Rightarrow> Inl (OtherError ''TypeError''))
      else Inl (OtherError ''NameError''))"

text \<open>\<^verbatim>\<open>df.head()\<close>: the first five rows.\<close>

definition head :: "dataframe \<Rightarrow> dataframe" where
  "head df = df\<lparr>df_rows := take 5 (df_rows df)\<rparr>"

text \<open>
  The body of the loop of \<^verbatim>\<open>load_data\<close> for one entry, with its \<^verbatim>\<open>try\<close>: the
  instructions are executed, the head of the frame is displayed (styled when the
  metadata has a single entry), and the frame is what the loop keeps. An exception of
  either call is raised again as \<^verbatim>\<open>Exception('Failed to load data from ...')\<close>.
  The line the loop prints is not recorded.
\<close>

definition load_entry :: "'s env \<Rightarrow> 's \<Rightarrow> bool \<Rightarrow> metadata \<Rightarrow> exn + dataframe" where
  "load_entry E s singular_file entry =
     (let import_function = func (import_instructions entry);
          import_args = arguments (import_instructions entry)
      in case call_import E s import_function import_args of
           Inl e \<Rightarrow>
             Inl (OtherError (''Failed to load data from '' @ file_name entry @ '': '' @ str e))
         | Inr df \<Rightarrow>
             (case display E singular_file (head df) of
                Some e \<Rightarrow>
                  Inl (OtherError
                        (''Failed to load data from '' @ file_name entry @ '': '' @ str e))
              | None \<Rightarrow> Inr df))"

section \<open>A reference environment\<close>

text \<open>
  A small executable disk on which the theorems are instantiated. A regular file holds a
  frame written in one format, or bytes no reader accepts; an archive holds named
  members; a protected file cannot be opened for writing. The disk is an association
  list from paths to files, directories are the prefixes of the paths. A reader accepts
  the files written in its own format, \<open>extractall\<close> writes every member below the
  destination and keeps what is there already, \<open>listdir\<close> gives the first path component
  of whatever lies below a directory. \<^verbatim>\<open>os.listdir\<close> promises no order; the listing
  here is in the order of writing, which is one of the orders it may give. The texts of
  the exceptions the readers raise stand for the libraries' own wording, which differs
  from reader to reader; their classes are the libraries'.
\<close>

datatype payload =
  CsvText dataframe | TsvText dataframe | Workbook dataframe
  | ParquetFile dataframe | JsonText dataframe | Garbage

datatype node = Data payload | Archive "(string \<times> payload) list" | Sidecar "metadata list" | Protected

type_synonym sim_disk = "(string \<times> node) list"

text \<open>A path as Python's error messages show it, between single quotes.\<close>

definition quoted :: "string \<Rightarrow> string" where
  "quoted p = [CHR 0x27] @ p @ [CHR 0x27]"

definition no_such_file :: "string \<Rightarrow> exn" where
  "no_such_file p = FileNotFoundError (''[Errno 2] No such file or directory: '' @ p)"

text \<open>\<^verbatim>\<open>sep.join(xs)\<close>.\<close>

fun join :: "string \<Rightarrow> string list \<Rightarrow> string" where
  "join sep [] = []"
| "join sep [x] = x"
| "join sep (x # y # ys) = x @ sep @ join sep (y # ys)"

text \<open>
  A delimited text file read with a delimiter that does not occur in it: every line is
  one cell, so the frame has a single column.
\<close>

definition one_column :: "string \<Rightarrow> dataframe \<Rightarrow> dataframe" where
  "one_column sep df =
     \<lparr>df_columns = [join sep (df_columns df)],
      df_rows = map (\<lambda>row. [join sep row]) (df_rows df)\<rparr>"

definition sim_read_csv :: "sim_disk \<Rightarrow> string \<Rightarrow> string option \<Rightarrow> exn + dataframe" where
  "sim_read_csv d p delimiter =
     (let sep = (case delimiter of None \<Rightarrow> '','' | Some x \<Rightarrow> x) in
      case map_of d p of
        None \<Rightarrow> Inl (no_such_file p)
      | Some (Data (CsvText df)) \<Rightarrow>
          if sep = '','' then Inr df else Inr (one_column '','' df)
      | Some (Data (TsvText df)) \<Rightarrow>
          if sep = [CHR 0x09] then Inr df else Inr (one_column [CHR 0x09] df)
      | Some _ \<Rightarrow> Inl (OtherError ''UnicodeDecodeError: invalid start byte''))"

definition sim_read_excel :: "sim_disk \<Rightarrow> string \<Rightarrow> exn + dataframe" where
  "sim_read_excel d p =
     (case map_of d p of
        None \<Rightarrow> Inl (no_such_file p)
      | Some (Data (Workbook df)) \<Rightarrow> Inr df
      | Some _ \<Rightarrow> Inl (ValueError ''Excel file format cannot be determined''))"

definition sim_read_parquet :: "sim_disk \<Rightarrow> string \<Rightarrow> exn + dataframe" where
  "sim_read_parquet d p =
     (case map_of d p of
        None \<Rightarrow> Inl (no_such_file p)
      | Some (Data (ParquetFile df)) \<Rightarrow> Inr df
      | Some _ \<Rightarrow> Inl (OtherError ''ArrowInvalid: Parquet magic bytes not found''))"

definition sim_read_json :: "sim_disk \<Rightarrow> string \<Rightarrow> exn + dataframe" where
  "sim_read_json d p =
     (case map_of d p of
        None \<Rightarrow> Inl (no_such_file p)
      | Some (Data (JsonText df)) \<Rightarrow> Inr df
      | Some _ \<Rightarrow> Inl (ValueError ''Expected object or value''))"

definition below :: "string \<Rightarrow> string \<Rightarrow> bool" where
  "below folder p = (startswith p (folder @ ''/'') \<and> length folder + 1 < length p)"

definition sim_listdir :: "sim_disk \<Rightarrow> string \<Rightarrow> string list" where
  "sim_listdir d folder =
     remdups (map (\<lambda>p. takeWhile (\<lambda>c. c \<noteq> CHR ''/'') (drop (length folder + 1) p))
                  (filter (below folder) (map fst d)))"

definition sim_path_exists :: "sim_disk \<Rightarrow> string \<Rightarrow> bool" where
  "sim_path_exists d p = (\<not> (map_of d p = None \<and> filter (below p) (map fst d) = []))"

definition sim_makedirs :: "sim_disk \<Rightarrow> string \<Rightarrow> exn option \<times> sim_disk" where
  "sim_makedirs d p =
     (if map_of d p \<noteq> None then
        (Some (OtherError (''[Errno 17] File exists: '' @ quoted p)), d)
      else (None, d))"

fun sim_write_members :: "string \<Rightarrow> (string \<times> payload) list \<Rightarrow> sim_disk \<Rightarrow> sim_disk" where
  "sim_write_members dest [] d = d"
| "sim_write_members dest ((n, c) # ms) d =
     sim_write_members dest ms (AList.update (path_join dest n) (Data c) d)"

definition sim_extractall :: "sim_disk \<Rightarrow> string \<Rightarrow> string \<Rightarrow> exn option \<times> sim_disk" where
  "sim_extractall d zip_path dest =
     (case map_of d zip_path of
        Some (Archive ms) \<Rightarrow> (None, sim_write_members dest ms d)
      | _ \<Rightarrow> (Some (OtherError ''BadZipFile: File is not a zip file''), d))"

definition sim_namelist :: "sim_disk \<Rightarrow> string \<Rightarrow> string list" where
  "sim_namelist d zip_path =
     (case map_of d zip_path of Some (Archive ms) \<Rightarrow> map fst ms | _ \<Rightarrow> [])"

definition sim_json_dump :: "sim_disk \<Rightarrow> string \<Rightarrow> metadata list \<Rightarrow> exn option \<times> sim_disk" where
  "sim_json_dump d p batch =
     (case map_of d p of
        Some Protected \<Rightarrow>
          (Some (OtherError (''[Errno 13] Permission denied: '' @ quoted p)), d)
      | _ \<Rightarrow> (None, AList.update p (Sidecar batch) d))"

text \<open>A notebook session: \<^verbatim>\<open>display\<close> is there and shows the frame.\<close>

definition sim_display :: "bool \<Rightarrow> dataframe \<Rightarrow> exn option" where
  "sim_display styled df = None"

definition sim :: "sim_disk env" where
  "sim = \<lparr>project_root = ''/proj'',
          path_exists = sim_path_exists,
          makedirs = sim_makedirs,
          extractall = sim_extractall,
          namelist = sim_namelist,
          listdir = sim_listdir,
          read_csv = sim_read_csv,
          read_excel = sim_read_excel,
          read_parquet = sim_read_parquet,
          read_json = sim_read_json,
          json_dump = sim_json_dump,
          display = sim_display\<rparr>"

definition fresh :: "'s \<Rightarrow> 's run" where
  "fresh s = \<lparr>disk = s, warned = [], printed = []\<rparr>"

text \<open>Three frames and the disks the examples below run on.\<close>

definition sales :: dataframe where
  "sales = \<lparr>df_columns = [''id'', ''amount''],
            df_rows = [[''1'', ''10''], [''2'', ''20''], [''3'', ''30'']]\<rparr>"

definition two_rows :: dataframe where
  "two_rows = \<lparr>df_columns = [''k'', ''v''], df_rows = [[''a'', ''1''], [''b'', ''2'']]\<rparr>"

definition one_row :: dataframe where
  "one_row = \<lparr>df_columns = [''x''], df_rows = [[''7'']]\<rparr>"

definition sales_disk :: sim_disk where
  "sales_disk = [(''sales.csv'', Data (CsvText sales))]"

definition sales_entry :: metadata where
  "sales_entry =
     \<lparr>file_name = ''sales.csv'', file_type = ''.csv'', columns = [''id'', ''amount''],
      row_count = 3,
      import_instructions =
        \<lparr>func = ''pd.read_csv'', arguments = [(''filepath_or_buffer'', ''sales.csv'')]\<rparr>\<rparr>"

definition json_disk :: sim_disk where
  "json_disk = [(''data.json'', Data (JsonText one_row))]"

definition txt_disk :: sim_disk where
  "txt_disk = [(''notes.txt'', Data (TsvText two_rows)), (''table.txt'', Data (JsonText one_row))]"

definition protected_disk :: sim_disk where
  "protected_disk = [(''/proj/metadata/metadata.json'', Protected)]"

text \<open>A regular file stands where the metadata directory is to be created.\<close>

definition blocked_disk :: sim_disk where
  "blocked_disk = [(''/proj/metadata'', Data Garbage)]"

definition hidden_only_disk :: sim_disk where
  "hidden_only_disk =
     [(''/proj/data/empty.zip'', Archive [(''.DS_Store'', Garbage), (''_cache'', Garbage)])]"

definition hidden_only_after :: sim_disk where
  "hidden_only_after =
     hidden_only_disk @
     [(''/proj/extracted_data/.DS_Store'', Data Garbage),
      (''/proj/extracted_data/_cache'', Data Garbage)]"

text \<open>
  The same archive, with a file of an earlier extraction still in the extraction
  directory.
\<close>

definition stale_hidden_disk :: sim_disk where
  "stale_hidden_disk =
     [(''/proj/extracted_data/old.csv'', Data (CsvText one_row)),
      (''/proj/data/empty.zip'', Archive [(''.DS_Store'', Garbage), (''_cache'', Garbage)])]"

definition mixed_disk :: sim_disk where
  "mixed_disk =
     [(''/proj/data/mixed.zip'', Archive [(''a.csv'', CsvText two_rows), (''t.txt'', TsvText one_row)])]"

definition a_entry :: metadata where
  "a_entry =
     \<lparr>file_name = ''a.csv'', file_type = ''.csv'', columns = [''k'', ''v''], row_count = 2,
      import_instructions =
        \<lparr>func = ''pd.read_csv'',
         arguments = [(''filepath_or_buffer'', ''/proj/extracted_data/a.csv'')]\<rparr>\<rparr>"

definition t_entry :: metadata where
  "t_entry =
     \<lparr>file_name = ''t.txt'', file_type = ''.txt'', columns = [''x''], row_count = 1,
      import_instructions =
        \<lparr>func = ''pd.read_csv'',
         arguments = [(''filepath_or_buffer'', ''/proj/extracted_data/t.txt''),
                      (''delimiter'', [CHR 0x09])]\<rparr>\<rparr>"

definition old_entry :: metadata where
  "old_entry =
     \<lparr>file_name = ''old.csv'', file_type = ''.csv'', columns = [''x''], row_count = 1,
      import_instructions =
        \<lparr>func = ''pd.read_csv'',
         arguments = [(''filepath_or_buffer'', ''/proj/extracted_data/old.csv'')]\<rparr>\<rparr>"

text \<open>
  Two archives in the data folder, as the entry point of the script would ingest them one
  after the other into the same extraction directory.
\<close>

definition two_archives :: sim_disk where
  "two_archives =
     [(''/proj/data/first.zip'', Archive [(''old.csv'', CsvText one_row)]),
      (''/proj/data/bundle.zip'', Archive [(''a.csv'', CsvText two_rows), (''notes.md'', Garbage)])]"

text \<open>
  An extraction directory that still holds three files of an earlier run, and an archive
  with the single member \<^verbatim>\<open>a.csv\<close>.
\<close>

definition leftover_disk :: sim_disk where
  "leftover_disk =
     [(''/proj/extracted_data/old.csv'', Data (CsvText one_row)),
      (''/proj/extracted_data/notes.md'', Data Garbage),
      (''/proj/extracted_data/broken.csv'', Data Garbage),
      (''/proj/data/bundle.zip'', Archive [(''a.csv'', CsvText two_rows)])]"

definition leftover_after :: sim_disk where
  "leftover_after = leftover_disk @ [(''/proj/extracted_data/a.csv'', Data (CsvText two_rows))]"

section \<open>Notions the statements use\<close>

text \<open>A name is hidden or reserved when its first character is a dot or an underscore.\<close>

definition hidden_or_reserved :: "string \<Rightarrow> bool" where
  "hidden_or_reserved n = (case n of [] \<Rightarrow> False | c # _ \<Rightarrow> c = CHR ''.'' \<or> c = CHR ''_'')"

text \<open>
  What one pass of the ZIP loop does with one entry: the warning it issues or the
  metadata it appends.
\<close>

definition process_member :: "'s env \<Rightarrow> 's \<Rightarrow> string \<Rightarrow> string \<Rightarrow> string + metadata" where
  "process_member E s folder name =
     (if splitext_ext name \<notin> set supported_formats then
        Inl (''Unsupported file type: '' @ name @ ''. Skipping.'')
      else
        (case read_file E s (path_join folder name) (splitext_ext name) of
           Inr (df, instr) \<Rightarrow>
             Inr \<lparr>file_name = name, file_type = splitext_ext name, columns = df_columns df,
                  row_count = len df, import_instructions = instr\<rparr>
         | Inl e \<Rightarrow> Inl (''Failed to process '' @ name @ '': '' @ str e)))"

fun lefts :: "('a + 'b) list \<Rightarrow> 'a list" where
  "lefts [] = []"
| "lefts (Inl a # xs) = a # lefts xs"
| "lefts (Inr b # xs) = lefts xs"

fun rights :: "('a + 'b) list \<Rightarrow> 'b list" where
  "rights [] = []"
| "rights (Inl a # xs) = rights xs"
| "rights (Inr b # xs) = b # rights xs"

text \<open>
  An entry records a reading of the file at a path: its instructions are the ones
  \<^verbatim>\<open>read_file\<close> returns for that path and extension on the disk, together with
  the frame whose columns and number of rows the entry holds.
\<close>

definition recorded :: "'s env \<Rightarrow> 's \<Rightarrow> string \<Rightarrow> string \<Rightarrow> dataframe \<Rightarrow> metadata \<Rightarrow> bool" where
  "recorded E s p ext df entry =
     (read_file E s p ext = Inr (df, import_instructions entry)
      \<and> df_columns df = columns entry \<and> len df = row_count entry)"

section \<open>The ZIP loop\<close>

lemma startswith_char: "startswith s [c] = (case s of [] \<Rightarrow> False | x # _ \<Rightarrow> x = c)"
  by (cases s) (auto simp: startswith_def)

lemma filtered_extracted_files_eq:
  "filtered_extracted_files xs = filter (\<lambda>n. \<not> hidden_or_reserved n) xs"
  unfolding filtered_extracted_files_def hidden_or_reserved_def
  by (rule filter_cong) (auto simp: startswith_char split: list.splits)

text \<open>
  The loop visits every entry once and never leaves early: its result is the metadata of
  the entries that were read, in order, and one warning for every other entry.
\<close>

lemma ZipDataIngestor_loop_eq:
  "ZipDataIngestor_loop E s folder names (md, ws) =
     (md @ rights (map (process_member E s folder) names),
      ws @ lefts (map (process_member E s folder) names))"
proof (induction names arbitrary: md ws)
  case Nil
  show ?case by simp
next
  case (Cons n names)
  show ?case
    by (simp add: Cons.IH process_member_def Let_def split: sum.splits prod.splits)
qed

lemma length_lefts_rights: "length (lefts xs) + length (rights xs) = length xs"
  by (induction xs rule: lefts.induct) simp_all

lemma rights_mem: "Inr m \<in> set xs \<Longrightarrow> m \<in> set (rights xs)"
  by (induction xs rule: rights.induct) auto

lemma rights_memD: "m \<in> set (rights xs) \<Longrightarrow> Inr m \<in> set xs"
  by (induction xs rule: rights.induct) auto

lemma zip_result:
  assumes "ZipDataIngestor_ingest E p r = (Inr ms, r')"
  shows "ms = rights (map (process_member E (disk r') (get_extracted_data_folder E))
                      (filtered_extracted_files (listdir E (disk r') (get_extracted_data_folder E))))"
proof -
  obtain e1 s1 where m: "makedirs E (disk r) (get_extracted_data_folder E) = (e1, s1)"
    by (cases "makedirs E (disk r) (get_extracted_data_folder E)")
  obtain e2 s2 where x: "extractall E s1 p (get_extracted_data_folder E) = (e2, s2)"
    by (cases "extractall E s1 p (get_extracted_data_folder E)")
  from assms m x show ?thesis
    unfolding ZipDataIngestor_ingest_def Let_def ZipDataIngestor_loop_eq
    by (cases e1; cases e2) (auto split: if_splits)
qed

text \<open>
  The entries the ZIP ingestor goes on with are the names the extraction directory lists
  after the expansion, without those that start with a dot or an underscore; once the
  checks on the path and the expansion are passed, the ingestion fails with
  \<^verbatim>\<open>FileNotFoundError('No files found within the .zip file.')\<close> exactly when no
  name is left in that listing, and otherwise returns what the loop makes of those names.
  The listing is the directory's, not the archive's.
\<close>

theorem zip_empty_archive_iff:
  assumes "endswith file_path ''.zip''"
      and "path_exists E (disk r) file_path"
      and "makedirs E (disk r) (get_extracted_data_folder E) = (None, s1)"
      and "extractall E s1 file_path (get_extracted_data_folder E) = (None, s2)"
  shows "(fst (ZipDataIngestor_ingest E file_path r)
            = Inl (FileNotFoundError ''No files found within the .zip file.'')
          \<longleftrightarrow> filter (\<lambda>n. \<not> hidden_or_reserved n)
                (listdir E s2 (get_extracted_data_folder E)) = [])
       \<and> (\<exists>r'. ZipDataIngestor_ingest E file_path r =
            (if filter (\<lambda>n. \<not> hidden_or_reserved n)
                  (listdir E s2 (get_extracted_data_folder E)) = []
             then Inl (FileNotFoundError ''No files found within the .zip file.'')
             else Inr (fst (ZipDataIngestor_loop E s2 (get_extracted_data_folder E)
                    (filter (\<lambda>n. \<not> hidden_or_reserved n)
                       (listdir E s2 (get_extracted_data_folder E))) ([], []))), r'))"
  using assms
  by (auto simp: ZipDataIngestor_ingest_def Let_def filtered_extracted_files_eq split: prod.splits)

theorem zip_empty_archive_iff_witness:
  "endswith ''/proj/data/empty.zip'' ''.zip''
   \<and> path_exists sim (disk (fresh hidden_only_disk)) ''/proj/data/empty.zip''
   \<and> extractall sim hidden_only_disk ''/proj/data/empty.zip'' (get_extracted_data_folder sim)
       = (None, hidden_only_after)
   \<and> listdir sim hidden_only_after (get_extracted_data_folder sim) = [''.DS_Store'', ''_cache'']
   \<and> fst (ZipDataIngestor_ingest sim ''/proj/data/empty.zip'' (fresh hidden_only_disk))
       = Inl (FileNotFoundError ''No files found within the .zip file.'')"
proof -
  have h1: "endswith ''/proj/data/empty.zip'' ''.zip''"
    by code_simp
  have h2: "path_exists sim (disk (fresh hidden_only_disk)) ''/proj/data/empty.zip''"
    by code_simp
  have h3: "makedirs sim (disk (fresh hidden_only_disk)) (get_extracted_data_folder sim)
              = (None, hidden_only_disk)"
    by code_simp
  have h4: "extractall sim hidden_only_disk ''/proj/data/empty.zip'' (get_extracted_data_folder sim)
              = (None, hidden_only_after)"
    by code_simp
  have h5: "listdir sim hidden_only_after (get_extracted_data_folder sim) = [''.DS_Store'', ''_cache'']"
    by code_simp
  have h6: "filter (\<lambda>n. \<not> hidden_or_reserved n) [''.DS_Store'', ''_cache''] = []"
    by (simp add: hidden_or_reserved_def)
  from zip_empty_archive_iff [OF h1 h2 h3 h4] h5 h6
  have "fst (ZipDataIngestor_ingest sim ''/proj/data/empty.zip'' (fresh hidden_only_disk))
          = Inl (FileNotFoundError ''No files found within the .zip file.'')"
    by simp
  with h1 h2 h4 h5 show ?thesis by simp
qed

text \<open>
  Claim C5 (the filtered entries are those of the expanded archive, and the ingestion
  fails with the empty-archive error exactly when none is left) fails on the code when
  the extraction directory is not empty: every member of \<^verbatim>\<open>empty.zip\<close> starts
  with a dot or an underscore, so its filtered entry list is empty, yet with
  \<^verbatim>\<open>old.csv\<close> of an earlier extraction in the directory the ingestion raises
  nothing and returns the entry of \<^verbatim>\<open>old.csv\<close>.
\<close>

theorem zip_hidden_only_archive_returns_stale:
  "namelist sim stale_hidden_disk ''/proj/data/empty.zip'' = [''.DS_Store'', ''_cache'']
   \<and> filtered_extracted_files (namelist sim stale_hidden_disk ''/proj/data/empty.zip'') = []
   \<and> listdir sim stale_hidden_disk (get_extracted_data_folder sim) = [''old.csv'']
   \<and> fst (ZipDataIngestor_ingest sim ''/proj/data/empty.zip'' (fresh stale_hidden_disk))
       = Inr [old_entry]
   \<and> warned (snd (ZipDataIngestor_ingest sim ''/proj/data/empty.zip'' (fresh stale_hidden_disk)))
       = []"
  by code_simp

section \<open>The factory\<close>

text \<open>
  Claim C6: \<^verbatim>\<open>get_ingestor\<close> raises
  \<^verbatim>\<open>ValueError('Unsupported file type: ...')\<close> for every extension other than the
  six recognised ones, and returns the ingestor of the extension for each of the six.
\<close>

theorem get_ingestor_cases:
  "(file_extension \<notin> {''.zip'', ''.csv'', ''.xlsx'', ''.parquet'', ''.json'', ''.txt''} \<longrightarrow>
      get_ingestor file_extension = Inl (ValueError (''Unsupported file type: '' @ file_extension)))
   \<and> get_ingestor ''.zip'' = Inr ZipDataIngestor
   \<and> get_ingestor ''.csv'' = Inr CsvDataIngestor
   \<and> get_ingestor ''.xlsx'' = Inr ExcelDataIngestor
   \<and> get_ingestor ''.parquet'' = Inr ParquetDataIngestor
   \<and> get_ingestor ''.json'' = Inr JsonDataIngestor
   \<and> get_ingestor ''.txt'' = Inr TxtDataIngestor"
  by (simp add: get_ingestor_def ingestors_def)

theorem get_ingestor_cases_witness:
  "''.xls'' \<notin> {''.zip'', ''.csv'', ''.xlsx'', ''.parquet'', ''.json'', ''.txt''}
   \<and> get_ingestor ''.xls'' = Inl (ValueError ''Unsupported file type: .xls'')"
  using get_ingestor_cases [of "''.xls''"] by simp

section \<open>Saving the metadata\<close>

text \<open>
  \<^verbatim>\<open>os.makedirs\<close> is called before the \<^verbatim>\<open>try\<close>: what it raises leaves
  \<^verbatim>\<open>save_metadata\<close>, and no warning is issued.
\<close>

lemma save_metadata_makedirs_failure:
  "makedirs E (disk r) (get_metadata_folder E) = (Some e, s1) \<Longrightarrow>
     save_metadata E md r = (Inl e, r\<lparr>disk := s1\<rparr>)"
  by (simp add: save_metadata_def Let_def)

text \<open>
  Claim C9 as stated fails: with a regular file where the metadata directory is to be
  created, persisting the batch fails in \<^verbatim>\<open>os.makedirs\<close>, and
  \<^verbatim>\<open>save_metadata\<close> raises that exception instead of warning and returning.
\<close>

theorem save_metadata_makedirs_raises:
  "makedirs sim blocked_disk (get_metadata_folder sim)
     = (Some (OtherError (''[Errno 17] File exists: '' @ quoted ''/proj/metadata'')), blocked_disk)
   \<and> save_metadata sim [sales_entry] (fresh blocked_disk)
     = (Inl (OtherError (''[Errno 17] File exists: '' @ quoted ''/proj/metadata'')),
        \<lparr>disk = blocked_disk, warned = [], printed = []\<rparr>)"
  by code_simp

text \<open>
  Claim C9, amended: when the metadata directory is there or has been created and
  writing the file fails (opening it for writing or \<^verbatim>\<open>json.dump\<close> raises \<open>e\<close>),
  \<^verbatim>\<open>save_metadata\<close> returns normally for every batch: it issues the warning
  \<^verbatim>\<open>Failed to save metadata: e\<close>, prints nothing and raises nothing. The batch is an
  argument the function only reads.
\<close>

theorem save_metadata_write_failure:
  assumes "makedirs E (disk r) (get_metadata_folder E) = (None, s1)"
      and "json_dump E s1 (path_join (get_metadata_folder E) ''metadata.json'') md = (Some e, s2)"
  shows "save_metadata E md r =
           (Inr (), r\<lparr>disk := s2, warned := warned r @ [''Failed to save metadata: '' @ str e]\<rparr>)"
  using assms by (simp add: save_metadata_def Let_def warn_def)

theorem save_metadata_write_failure_witness:
  "makedirs sim (disk (fresh protected_disk)) (get_metadata_folder sim) = (None, protected_disk)
   \<and> json_dump sim protected_disk (path_join (get_metadata_folder sim) ''metadata.json'') [sales_entry]
       = (Some (OtherError (''[Errno 13] Permission denied: ''
                              @ quoted ''/proj/metadata/metadata.json'')), protected_disk)
   \<and> save_metadata sim [sales_entry] (fresh protected_disk) =
       (Inr (), \<lparr>disk = protected_disk,
                 warned = [''Failed to save metadata: [Errno 13] Permission denied: ''
                             @ quoted ''/proj/metadata/metadata.json''],
                 printed = []\<rparr>)"
proof -
  have h1: "makedirs sim (disk (fresh protected_disk)) (get_metadata_folder sim)
              = (None, protected_disk)"
    by code_simp
  have h2: "json_dump sim protected_disk (path_join (get_metadata_folder sim) ''metadata.json'')
              [sales_entry]
            = (Some (OtherError (''[Errno 13] Permission denied: ''
                                   @ quoted ''/proj/metadata/metadata.json'')), protected_disk)"
    by code_simp
  from save_metadata_write_failure [OF h1 h2] h1 h2 show ?thesis
    by (simp add: fresh_def)
qed

section \<open>Reloading what was ingested\<close>

text \<open>
  Called with the instructions \<^verbatim>\<open>read_file\<close> wrote, \<^verbatim>\<open>call_import\<close> runs the
  same reader on the same path with the same delimiter.
\<close>

lemma read_file_call_import:
  "read_file E s p ext = Inr (df, instr) \<Longrightarrow> call_import E s (func instr) (arguments instr) = Inr df"
  by (auto simp: read_file_def call_import_def split: if_splits sum.splits)

lemma recorded_call_import:
  "recorded E s p ext df entry \<Longrightarrow>
     call_import E s (func (import_instructions entry)) (arguments (import_instructions entry))
       = Inr df"
  unfolding recorded_def by (auto dest: read_file_call_import)

lemma recorded_load_entry:
  assumes "recorded E s p ext df entry" and "display E singular_file (head df) = None"
  shows "load_entry E s singular_file entry = Inr df"
  using recorded_call_import [OF assms(1)] assms(2)
  by (simp add: load_entry_def)

lemma process_member_recorded:
  "process_member E s folder name = Inr m \<Longrightarrow>
     \<exists>df. recorded E s (path_join folder name) (splitext_ext name) df m"
  unfolding process_member_def recorded_def
  by (auto split: if_splits sum.splits)

lemma csv_recorded:
  "CsvDataIngestor_ingest E s p = Inr m \<Longrightarrow> \<exists>df. recorded E s p ''.csv'' df m"
  unfolding CsvDataIngestor_ingest_def recorded_def
  by (auto split: if_splits sum.splits)

lemma excel_recorded:
  "ExcelDataIngestor_ingest E s p = Inr m \<Longrightarrow> \<exists>df. recorded E s p ''.xlsx'' df m"
  unfolding ExcelDataIngestor_ingest_def recorded_def
  by (auto split: if_splits sum.splits)

lemma parquet_recorded:
  "ParquetDataIngestor_ingest E s p = Inr m \<Longrightarrow> \<exists>df. recorded E s p ''.parquet'' df m"
  unfolding ParquetDataIngestor_ingest_def recorded_def
  by (auto split: if_splits sum.splits)

lemma json_recorded:
  "JsonDataIngestor_ingest E s p = Inr m \<Longrightarrow> \<exists>df. recorded E s p ''.json'' df m"
  unfolding JsonDataIngestor_ingest_def recorded_def
  by (auto split: if_splits sum.splits)

lemma txt_recorded:
  "TxtDataIngestor_ingest E s p = Inr m \<Longrightarrow> \<exists>df. recorded E s p ''.json'' df m"
  unfolding TxtDataIngestor_ingest_def recorded_def
  by (auto split: if_splits sum.splits)

lemma zip_recorded:
  assumes "ZipDataIngestor_ingest E p r = (Inr ms, r')" and "m \<in> set ms"
  shows "\<exists>n df. recorded E (disk r') (path_join (get_extracted_data_folder E) n)
                   (splitext_ext n) df m"
proof -
  let ?xs = "map (process_member E (disk r') (get_extracted_data_folder E))
      (filtered_extracted_files (listdir E (disk r') (get_extracted_data_folder E)))"
  have "ms = rights ?xs" by (rule zip_result [OF assms(1)])
  with assms(2) have "m \<in> set (rights ?xs)" by simp
  then have "Inr m \<in> set ?xs" by (rule rights_memD)
  then obtain n where "process_member E (disk r') (get_extracted_data_folder E) n = Inr m"
    by auto
  then show ?thesis by (blast dest: process_member_recorded)
qed

lemma ingest_recorded:
  assumes "ingest E i file_path r = (Inr res, r')" and "entry \<in> set (entries res)"
  shows "\<exists>p ext df. recorded E (disk r') p ext df entry"
proof (cases i)
  case ZipDataIngestor
  with assms obtain ms where z: "ZipDataIngestor_ingest E file_path r = (Inr ms, r')"
    and "res = Many ms"
    by (auto split: prod.splits sum.splits)
  with assms(2) have "entry \<in> set ms" by simp
  from zip_recorded [OF z this] show ?thesis by blast
next
  case CsvDataIngestor
  with assms have "CsvDataIngestor_ingest E (disk r') file_path = Inr entry"
    by (auto simp: lift_one_def split: sum.splits)
  from csv_recorded [OF this] show ?thesis by blast
next
  case ExcelDataIngestor
  with assms have "ExcelDataIngestor_ingest E (disk r') file_path = Inr entry"
    by (auto simp: lift_one_def split: sum.splits)
  from excel_recorded [OF this] show ?thesis by blast
next
  case ParquetDataIngestor
  with assms have "ParquetDataIngestor_ingest E (disk r') file_path = Inr entry"
    by (auto simp: lift_one_def split: sum.splits)
  from parquet_recorded [OF this] show ?thesis by blast
next
  case JsonDataIngestor
  with assms have "JsonDataIngestor_ingest E (disk r') file_path = Inr entry"
    by (auto simp: lift_one_def split: sum.splits)
  from json_recorded [OF this] show ?thesis by blast
next
  case TxtDataIngestor
  with assms have "TxtDataIngestor_ingest E (disk r') file_path = Inr entry"
    by (auto simp: lift_one_def split: sum.splits)
  from txt_recorded [OF this] show ?thesis by blast
qed

text \<open>
  Claim C8: whichever ingestor ingested a file successfully, every entry it returned
  records a reading of a file on the disk as the ingestion left it: its instructions are
  the ones \<^verbatim>\<open>read_file\<close> gives for that file there, with a frame \<open>df\<close>. Executing
  the recorded instructions on that disk (the recorded function called with the recorded
  keyword arguments, as the loader does) returns this very frame, and its columns and its
  number of rows are the ones the entry records. Where displaying the head of the frame
  succeeds, the loader's pass over the entry returns the frame as well.
\<close>

theorem reload_roundtrip:
  assumes "ingest E i file_path r = (Inr res, r')" and "entry \<in> set (entries res)"
  shows "\<exists>p ext df.
           read_file E (disk r') p ext = Inr (df, import_instructions entry)
           \<and> call_import E (disk r') (func (import_instructions entry))
                 (arguments (import_instructions entry)) = Inr df
           \<and> df_columns df = columns entry
           \<and> len df = row_count entry
           \<and> (display E singular_file (head df) = None
                \<longrightarrow> load_entry E (disk r') singular_file entry = Inr df)"
proof -
  from ingest_recorded [OF assms] obtain p ext df
    where rec: "recorded E (disk r') p ext df entry" by blast
  have f1: "read_file E (disk r') p ext = Inr (df, import_instructions entry)"
    and f2: "df_columns df = columns entry" and f3: "len df = row_count entry"
    using rec by (simp_all add: recorded_def)
  have f4: "call_import E (disk r') (func (import_instructions entry))
              (arguments (import_instructions entry)) = Inr df"
    by (rule recorded_call_import [OF rec])
  have f5: "display E singular_file (head df) = None
              \<longrightarrow> load_entry E (disk r') singular_file entry = Inr df"
  proof
    assume "display E singular_file (head df) = None"
    with rec show "load_entry E (disk r') singular_file entry = Inr df"
      by (rule recorded_load_entry)
  qed
  show ?thesis
    by (rule exI [of _ p], rule exI [of _ ext], rule exI [of _ df])
       (intro conjI f1 f2 f3 f4 f5)
qed

theorem reload_roundtrip_witness:
  "fst (ingest sim ZipDataIngestor ''/proj/data/mixed.zip'' (fresh mixed_disk))
     = Inr (Many [a_entry, t_entry])
   \<and> t_entry \<in> set (entries (Many [a_entry, t_entry]))
   \<and> (\<exists>p ext df.
         read_file sim
           (disk (snd (ingest sim ZipDataIngestor ''/proj/data/mixed.zip'' (fresh mixed_disk))))
           p ext = Inr (df, import_instructions t_entry)
         \<and> call_import sim
             (disk (snd (ingest sim ZipDataIngestor ''/proj/data/mixed.zip'' (fresh mixed_disk))))
             (func (import_instructions t_entry)) (arguments (import_instructions t_entry)) = Inr df
         \<and> df_columns df = columns t_entry
         \<and> len df = row_count t_entry
         \<and> (display sim False (head df) = None
              \<longrightarrow> load_entry sim
                    (disk (snd (ingest sim ZipDataIngestor ''/proj/data/mixed.zip''
                                  (fresh mixed_disk))))
                    False t_entry = Inr df))
   \<and> load_entry sim
       (disk (snd (ingest sim ZipDataIngestor ''/proj/data/mixed.zip'' (fresh mixed_disk))))
       False t_entry = Inr one_row"
proof -
  let ?run = "ingest sim ZipDataIngestor ''/proj/data/mixed.zip'' (fresh mixed_disk)"
  have h1: "fst ?run = Inr (Many [a_entry, t_entry])"
    by code_simp
  then have h2: "?run = (Inr (Many [a_entry, t_entry]), snd ?run)"
    by (simp add: prod_eq_iff)
  have h3: "t_entry \<in> set (entries (Many [a_entry, t_entry]))"
    by simp
  have h4: "load_entry sim (disk (snd ?run)) False t_entry = Inr one_row"
    by code_simp
  from reload_roundtrip [OF h2 h3, of False] h1 h3 h4 show ?thesis
    by blast
qed

section \<open>The file type an entry records\<close>

text \<open>
  An entry the ZIP loop appends records the extension of its own name. The JSON and the
  TXT ingestor record a constant that is not the extension they checked for.
\<close>

lemma process_member_file_type:
  "process_member E s folder name = Inr m \<Longrightarrow> file_type m = splitext_ext (file_name m)"
  unfolding process_member_def
  by (auto split: if_splits sum.splits)

lemma json_file_type: "JsonDataIngestor_ingest E s p = Inr m \<Longrightarrow> file_type m = ''.parquet''"
  unfolding JsonDataIngestor_ingest_def
  by (auto split: if_splits sum.splits)

lemma txt_file_type: "TxtDataIngestor_ingest E s p = Inr m \<Longrightarrow> file_type m = ''.json''"
  unfolding TxtDataIngestor_ingest_def
  by (auto split: if_splits sum.splits)

text \<open>
  Claim C1 (the file type of an entry agrees with the extension of its file name) fails
  on the code: ingesting the JSON file \<^verbatim>\<open>data.json\<close> succeeds with the file type
  \<^verbatim>\<open>.parquet\<close>, and ingesting \<^verbatim>\<open>table.txt\<close> with the TXT ingestor succeeds
  with the file type \<^verbatim>\<open>.json\<close>.
\<close>

theorem json_ingest_file_type_parquet:
  "JsonDataIngestor_ingest sim json_disk ''data.json'' =
     Inr \<lparr>file_name = ''data.json'', file_type = ''.parquet'', columns = [''x''], row_count = 1,
          import_instructions =
            \<lparr>func = ''pd.read_json'', arguments = [(''path_or_buf'', ''data.json'')]\<rparr>\<rparr>
   \<and> splitext_ext ''data.json'' = ''.json''
   \<and> TxtDataIngestor_ingest sim txt_disk ''table.txt'' =
     Inr \<lparr>file_name = ''table.txt'', file_type = ''.json'', columns = [''x''], row_count = 1,
          import_instructions =
            \<lparr>func = ''pd.read_json'', arguments = [(''path_or_buf'', ''table.txt'')]\<rparr>\<rparr>
   \<and> splitext_ext ''table.txt'' = ''.txt''"
  by code_simp

section \<open>The reader the TXT ingestor calls\<close>

text \<open>
  The TXT ingestor passes \<^verbatim>\<open>'.json'\<close> to \<^verbatim>\<open>read_file\<close>: what the
  tab-delimited reader would do has no influence on its result, and an entry it returns
  names the JSON reader.
\<close>

lemma txt_ingest_ignores_read_csv:
  "TxtDataIngestor_ingest (E\<lparr>read_csv := f\<rparr>) s p = TxtDataIngestor_ingest E s p"
  by (simp add: TxtDataIngestor_ingest_def read_file_def)

lemma txt_ingest_recipe:
  "TxtDataIngestor_ingest E s p = Inr m \<Longrightarrow>
     import_instructions m = \<lparr>func = ''pd.read_json'', arguments = [(''path_or_buf'', p)]\<rparr>"
  unfolding TxtDataIngestor_ingest_def
  by (auto simp: read_file_def split: if_splits sum.splits)

text \<open>
  Claim C2 (a path ending in \<^verbatim>\<open>.txt\<close> is parsed as tab-delimited text and its
  instructions name the tab-delimited reader with the delimiter) fails on the code: for
  the tab-delimited file \<^verbatim>\<open>notes.txt\<close>, \<^verbatim>\<open>read_file\<close> with the extension
  \<^verbatim>\<open>.txt\<close> returns the frame and those instructions, but the TXT ingestor hands the
  file to the JSON reader and raises \<^verbatim>\<open>ValueError('Failed to ingest TXT file: ...')\<close>.
\<close>

theorem txt_ingest_uses_json_reader:
  "endswith ''notes.txt'' ''.txt''
   \<and> read_file sim txt_disk ''notes.txt'' ''.txt'' =
       Inr (two_rows, \<lparr>func = ''pd.read_csv'',
                        arguments = [(''filepath_or_buffer'', ''notes.txt''),
                                     (''delimiter'', [CHR 0x09])]\<rparr>)
   \<and> TxtDataIngestor_ingest sim txt_disk ''notes.txt'' =
       Inl (ValueError ''Failed to ingest TXT file: Expected object or value'')"
  by code_simp

section \<open>The CSV scenario\<close>

text \<open>
  Claim C3 as stated fails: for \<^verbatim>\<open>sales.csv\<close> with the columns \<^verbatim>\<open>id\<close>,
  \<^verbatim>\<open>amount\<close> and three rows, the CSV ingestor does not return the entry whose
  instructions are the function \<^verbatim>\<open>csv_reader\<close> with the argument \<^verbatim>\<open>path\<close>.
\<close>

theorem csv_sales_not_csv_reader:
  "read_csv sim sales_disk ''sales.csv'' None = Inr sales
   \<and> df_columns sales = [''id'', ''amount'']
   \<and> len sales = 3
   \<and> CsvDataIngestor_ingest sim sales_disk ''sales.csv'' \<noteq>
       Inr \<lparr>file_name = ''sales.csv'', file_type = ''.csv'', columns = [''id'', ''amount''],
            row_count = 3,
            import_instructions =
              \<lparr>func = ''csv_reader'', arguments = [(''path'', ''sales.csv'')]\<rparr>\<rparr>"
  by code_simp

text \<open>
  Claim C3, amended: when \<^verbatim>\<open>sales.csv\<close> exists and the CSV reader gives a frame
  with the columns \<^verbatim>\<open>id\<close>, \<^verbatim>\<open>amount\<close> and three rows for it, the CSV ingestor
  returns exactly the entry with that file name, the file type \<^verbatim>\<open>.csv\<close>, those
  columns, the row count 3 and the instructions \<^verbatim>\<open>pd.read_csv\<close> with the argument
  \<^verbatim>\<open>filepath_or_buffer\<close> set to \<^verbatim>\<open>sales.csv\<close>.
\<close>

theorem csv_sales_metadata:
  assumes "path_exists E s ''sales.csv''"
      and "read_csv E s ''sales.csv'' None = Inr df"
      and "df_columns df = [''id'', ''amount'']"
      and "length (df_rows df) = 3"
  shows "CsvDataIngestor_ingest E s ''sales.csv'' =
           Inr \<lparr>file_name = ''sales.csv'', file_type = ''.csv'', columns = [''id'', ''amount''],
                row_count = 3,
                import_instructions =
                  \<lparr>func = ''pd.read_csv'',
                   arguments = [(''filepath_or_buffer'', ''sales.csv'')]\<rparr>\<rparr>"
proof -
  have e: "endswith ''sales.csv'' ''.csv''"
    by (simp add: endswith_def)
  have b: "basename ''sales.csv'' = ''sales.csv''"
    by (simp add: basename_def)
  from assms show ?thesis
    by (simp add: CsvDataIngestor_ingest_def e b read_file_def len_def)
qed

theorem csv_sales_metadata_witness:
  "path_exists sim sales_disk ''sales.csv''
   \<and> read_csv sim sales_disk ''sales.csv'' None = Inr sales
   \<and> df_columns sales = [''id'', ''amount'']
   \<and> length (df_rows sales) = 3
   \<and> CsvDataIngestor_ingest sim sales_disk ''sales.csv'' = Inr sales_entry"
proof -
  have h1: "path_exists sim sales_disk ''sales.csv''" by code_simp
  have h2: "read_csv sim sales_disk ''sales.csv'' None = Inr sales" by code_simp
  have h3: "df_columns sales = [''id'', ''amount'']" by (simp add: sales_def)
  have h4: "length (df_rows sales) = 3" by (simp add: sales_def)
  from csv_sales_metadata [OF h1 h2 h3 h4] h1 h2 h3 h4 show ?thesis
    by (simp add: sales_entry_def)
qed

section \<open>Failures inside the ZIP loop\<close>

text \<open>
  Past the expansion, the ingestion returns normally whatever the entries are: each
  entry gives its metadata or one warning, and no entry stops the others.
\<close>

lemma zip_members_isolated:
  assumes "endswith file_path ''.zip''"
      and "path_exists E (disk r) file_path"
      and "makedirs E (disk r) (get_extracted_data_folder E) = (None, s1)"
      and "extractall E s1 file_path (get_extracted_data_folder E) = (None, s2)"
      and "filtered_extracted_files (listdir E s2 (get_extracted_data_folder E)) = names"
      and "names \<noteq> []"
  shows "ZipDataIngestor_ingest E file_path r =
           (Inr (rights (map (process_member E s2 (get_extracted_data_folder E)) names)),
            r\<lparr>disk := s2,
              warned := warned r @ lefts (map (process_member E s2 (get_extracted_data_folder E)) names)\<rparr>)"
  using assms
  by (simp add: ZipDataIngestor_ingest_def Let_def ZipDataIngestor_loop_eq)

text \<open>
  When the extraction directory lists exactly one entry that is read and one that is not,
  in either order, the result is the one entry and one warning.
\<close>

lemma zip_one_read_one_failed:
  assumes "endswith file_path ''.zip''"
      and "path_exists E (disk r) file_path"
      and "makedirs E (disk r) (get_extracted_data_folder E) = (None, s1)"
      and "extractall E s1 file_path (get_extracted_data_folder E) = (None, s2)"
      and "filtered_extracted_files (listdir E s2 (get_extracted_data_folder E)) = [a, b]
           \<or> filtered_extracted_files (listdir E s2 (get_extracted_data_folder E)) = [b, a]"
      and "process_member E s2 (get_extracted_data_folder E) a = Inr m"
      and "process_member E s2 (get_extracted_data_folder E) b = Inl w"
  shows "ZipDataIngestor_ingest E file_path r = (Inr [m], r\<lparr>disk := s2, warned := warned r @ [w]\<rparr>)"
proof -
  from assms(5) show ?thesis
  proof
    assume l: "filtered_extracted_files (listdir E s2 (get_extracted_data_folder E)) = [a, b]"
    show ?thesis
      using zip_members_isolated [OF assms(1-4) l] assms(6,7) by simp
  next
    assume l: "filtered_extracted_files (listdir E s2 (get_extracted_data_folder E)) = [b, a]"
    show ?thesis
      using zip_members_isolated [OF assms(1-4) l] assms(6,7) by simp
  qed
qed

text \<open>
  Claim C4 (an archive with one well-formed CSV member and one unsupported member gives
  exactly one entry) fails on the code when the extraction directory is not empty:
  \<^verbatim>\<open>bundle.zip\<close> has the members \<^verbatim>\<open>a.csv\<close> and \<^verbatim>\<open>notes.md\<close>, and ingested
  after \<^verbatim>\<open>first.zip\<close> it returns two entries, the first for \<^verbatim>\<open>old.csv\<close> of the
  earlier archive, with one warning for \<^verbatim>\<open>notes.md\<close>.
\<close>

theorem zip_second_archive_returns_stale:
  "namelist sim two_archives ''/proj/data/bundle.zip'' = [''a.csv'', ''notes.md'']
   \<and> fst (ZipDataIngestor_ingest sim ''/proj/data/first.zip'' (fresh two_archives)) = Inr [old_entry]
   \<and> fst (ZipDataIngestor_ingest sim ''/proj/data/bundle.zip''
          (snd (ZipDataIngestor_ingest sim ''/proj/data/first.zip'' (fresh two_archives))))
       = Inr [old_entry, a_entry]
   \<and> warned (snd (ZipDataIngestor_ingest sim ''/proj/data/bundle.zip''
          (snd (ZipDataIngestor_ingest sim ''/proj/data/first.zip'' (fresh two_archives)))))
       = [''Unsupported file type: notes.md. Skipping.'']"
  by code_simp

section \<open>Paths that do not exist\<close>

text \<open>
  Only the CSV ingestor asks whether the path exists. The other four call
  \<^verbatim>\<open>read_file\<close> at once and wrap whatever it raises in a \<^verbatim>\<open>ValueError\<close>, so
  none of them ever raises \<^verbatim>\<open>FileNotFoundError\<close>.
\<close>

lemma csv_missing_FileNotFound:
  "endswith p ''.csv'' \<Longrightarrow> \<not> path_exists E s p \<Longrightarrow>
     CsvDataIngestor_ingest E s p = Inl (FileNotFoundError (''The file '' @ p @ '' does not exist.''))"
  by (simp add: CsvDataIngestor_ingest_def)

lemma excel_never_FileNotFound: "ExcelDataIngestor_ingest E s p \<noteq> Inl (FileNotFoundError m)"
  unfolding ExcelDataIngestor_ingest_def by (auto split: sum.splits)

lemma parquet_never_FileNotFound: "ParquetDataIngestor_ingest E s p \<noteq> Inl (FileNotFoundError m)"
  unfolding ParquetDataIngestor_ingest_def by (auto split: sum.splits)

lemma json_never_FileNotFound: "JsonDataIngestor_ingest E s p \<noteq> Inl (FileNotFoundError m)"
  unfolding JsonDataIngestor_ingest_def by (auto split: sum.splits)

lemma txt_never_FileNotFound: "TxtDataIngestor_ingest E s p \<noteq> Inl (FileNotFoundError m)"
  unfolding TxtDataIngestor_ingest_def by (auto split: sum.splits)

text \<open>
  Claim C7 (every single-file ingestor fails with \<^verbatim>\<open>FileNotFoundError\<close> on a path of
  its extension that does not exist, before any parsing) fails on the code: on an empty
  disk the Excel, Parquet, JSON and TXT ingestors call the reader and raise
  \<^verbatim>\<open>ValueError\<close> with the reader's message, and only the CSV ingestor raises
  \<^verbatim>\<open>FileNotFoundError\<close>.
\<close>

theorem missing_file_not_FileNotFound:
  "\<not> path_exists sim ([] :: sim_disk) ''missing.xlsx''
   \<and> ExcelDataIngestor_ingest sim [] ''missing.xlsx'' =
       Inl (ValueError
         ''Failed to ingest Excel file: [Errno 2] No such file or directory: missing.xlsx'')
   \<and> ParquetDataIngestor_ingest sim [] ''missing.parquet'' =
       Inl (ValueError
         ''Failed to ingest Parquet file: [Errno 2] No such file or directory: missing.parquet'')
   \<and> JsonDataIngestor_ingest sim [] ''missing.json'' =
       Inl (ValueError
         ''Failed to ingest Parquet file: [Errno 2] No such file or directory: missing.json'')
   \<and> TxtDataIngestor_ingest sim [] ''missing.txt'' =
       Inl (ValueError
         ''Failed to ingest TXT file: [Errno 2] No such file or directory: missing.txt'')
   \<and> CsvDataIngestor_ingest sim [] ''missing.csv'' =
       Inl (FileNotFoundError ''The file missing.csv does not exist.'')"
  by code_simp

section \<open>Files left in the extraction directory\<close>

text \<open>
  Claim C10 as stated fails: \<^verbatim>\<open>notes.md\<close> and \<^verbatim>\<open>broken.csv\<close> lie in the
  extraction directory before \<^verbatim>\<open>bundle.zip\<close> (whose only member is \<^verbatim>\<open>a.csv\<close>)
  is ingested, their names start with neither a dot nor an underscore, and the returned
  sequence has no entry for either of them.
\<close>

theorem zip_leftover_not_all_included:
  "''notes.md'' \<in> set (filtered_extracted_files
                        (listdir sim leftover_disk (get_extracted_data_folder sim)))
   \<and> ''broken.csv'' \<in> set (filtered_extracted_files
                        (listdir sim leftover_disk (get_extracted_data_folder sim)))
   \<and> namelist sim leftover_disk ''/proj/data/bundle.zip'' = [''a.csv'']
   \<and> fst (ZipDataIngestor_ingest sim ''/proj/data/bundle.zip'' (fresh leftover_disk))
       = Inr [old_entry, a_entry]
   \<and> ''notes.md'' \<notin> set (map file_name [old_entry, a_entry])
   \<and> ''broken.csv'' \<notin> set (map file_name [old_entry, a_entry])"
  by code_simp

text \<open>
  Claim C10, amended: the ZIP ingestor goes through the listing of the extraction
  directory, not through the members of the archive. So a file that was in the directory
  before the call, is not a member of the archive and is still listed after the expansion
  is processed like a member: if its name starts with neither a dot nor an underscore, its
  extension is supported and the reader accepts it, the ingestion succeeds and the
  returned sequence contains its entry.
\<close>

theorem zip_leftover_ingested:
  assumes "endswith file_path ''.zip''"
      and "path_exists E (disk r) file_path"
      and "makedirs E (disk r) (get_extracted_data_folder E) = (None, s1)"
      and "extractall E s1 file_path (get_extracted_data_folder E) = (None, s2)"
      and "name \<in> set (listdir E (disk r) (get_extracted_data_folder E))"
      and "name \<notin> set (namelist E (disk r) file_path)"
      and "name \<in> set (listdir E s2 (get_extracted_data_folder E))"
      and "\<not> hidden_or_reserved name"
      and "splitext_ext name \<in> set supported_formats"
      and "read_file E s2 (path_join (get_extracted_data_folder E) name) (splitext_ext name)
             = Inr (df, instr)"
  shows "\<exists>ms r'. ZipDataIngestor_ingest E file_path r = (Inr ms, r')
           \<and> \<lparr>file_name = name, file_type = splitext_ext name, columns = df_columns df,
               row_count = len df, import_instructions = instr\<rparr> \<in> set ms"
proof -
  let ?folder = "get_extracted_data_folder E"
  let ?names = "filtered_extracted_files (listdir E s2 ?folder)"
  let ?entry = "\<lparr>file_name = name, file_type = splitext_ext name, columns = df_columns df,
                  row_count = len df, import_instructions = instr\<rparr>"
  from assms(7,8) have mem: "name \<in> set ?names"
    by (simp add: filtered_extracted_files_eq)
  then have ne: "?names \<noteq> []" by auto
  from assms(9,10) have "process_member E s2 ?folder name = Inr ?entry"
    by (simp add: process_member_def)
  with mem have "Inr ?entry \<in> set (map (process_member E s2 ?folder) ?names)"
    by (metis image_eqI set_map)
  then have "?entry \<in> set (rights (map (process_member E s2 ?folder) ?names))"
    by (rule rights_mem)
  with zip_members_isolated [OF assms(1-4) refl ne] show ?thesis
    by blast
qed

theorem zip_leftover_ingested_witness:
  "''old.csv'' \<in> set (listdir sim (disk (fresh leftover_disk)) (get_extracted_data_folder sim))
   \<and> ''old.csv'' \<notin> set (namelist sim (disk (fresh leftover_disk)) ''/proj/data/bundle.zip'')
   \<and> extractall sim leftover_disk ''/proj/data/bundle.zip'' (get_extracted_data_folder sim)
       = (None, leftover_after)
   \<and> (\<exists>ms r'. ZipDataIngestor_ingest sim ''/proj/data/bundle.zip'' (fresh leftover_disk) = (Inr ms, r')
         \<and> old_entry \<in> set ms)"
proof -
  have h1: "endswith ''/proj/data/bundle.zip'' ''.zip''" by code_simp
  have h2: "path_exists sim (disk (fresh leftover_disk)) ''/proj/data/bundle.zip''" by code_simp
  have h3: "makedirs sim (disk (fresh leftover_disk)) (get_extracted_data_folder sim)
              = (None, leftover_disk)" by code_simp
  have h4: "extractall sim leftover_disk ''/proj/data/bundle.zip'' (get_extracted_data_folder sim)
              = (None, leftover_after)" by code_simp
  have h5: "''old.csv'' \<in> set (listdir sim (disk (fresh leftover_disk)) (get_extracted_data_folder sim))"
    by code_simp
  have h6: "''old.csv'' \<notin> set (namelist sim (disk (fresh leftover_disk)) ''/proj/data/bundle.zip'')"
    by code_simp
  have h7: "''old.csv'' \<in> set (listdir sim leftover_after (get_extracted_data_folder sim))"
    by code_simp
  have h8: "\<not> hidden_or_reserved ''old.csv''" by code_simp
  have h9: "splitext_ext ''old.csv'' \<in> set supported_formats" by code_simp
  have h10: "read_file sim leftover_after (path_join (get_extracted_data_folder sim) ''old.csv'')
               (splitext_ext ''old.csv'')
             = Inr (one_row, \<lparr>func = ''pd.read_csv'',
                   arguments = [(''filepath_or_buffer'', ''/proj/extracted_data/old.csv'')]\<rparr>)"
    by code_simp
  have e: "\<lparr>file_name = ''old.csv'', file_type = splitext_ext ''old.csv'',
            columns = df_columns one_row, row_count = len one_row,
            import_instructions = \<lparr>func = ''pd.read_csv'',
              arguments = [(''filepath_or_buffer'', ''/proj/extracted_data/old.csv'')]\<rparr>\<rparr> = old_entry"
    by code_simp
  from zip_leftover_ingested [OF h1 h2 h3 h4 h5 h6 h7 h8 h9 h10] e h4 h5 h6 show ?thesis
    by simp
qed

end
